theory Spec2Isabelle
  imports Main
begin

section \<open>Errors\<close>

text \<open>
  Go's \<open>error\<close> values that the two source files create, compare against or pass on.
  The sentinel values \<open>io.EOF\<close>, \<open>context.Canceled\<close> and
  \<open>context.DeadlineExceeded\<close> are constructors of their own: Go's \<open>switch err\<close>
  compares with \<open>==\<close>, which on these values is identity, and HOL's equality on
  the datatype is the same test. A wrapped error (\<open>fmt.Errorf("...: %w", err)\<close>) is a
  different value from the error it wraps.
\<close>

datatype error =
    EOF
  | Canceled
  | DeadlineExceeded
  | ErrBufferFull
  | ErrClosed
  | Errno nat
  | SyscallError string error
  | Errorf string
  | Wrapped string error
  | NilDereference
  | TypeAssertion
  | IndexOutOfRange

definition EBADF :: error where
  "EBADF = Errno 9"

definition EINVAL :: error where
  "EINVAL = Errno 22"

text \<open>\<open>os.NewSyscallError(name, err)\<close>, called in the source only with a non-nil \<open>err\<close>.\<close>

definition NewSyscallError :: "string \<Rightarrow> error \<Rightarrow> error" where
  "NewSyscallError name err = SyscallError name err"

text \<open>The verb \<open>%d\<close> of \<open>fmt.Errorf\<close> on a length (never negative).\<close>

definition digit :: "nat \<Rightarrow> char" where
  "digit n = ''0123456789'' ! n"

fun itoa :: "nat \<Rightarrow> string" where
  "itoa n = (if n < 10 then [digit n] else itoa (n div 10) @ [digit (n mod 10)])"

declare itoa.simps [simp del]

section \<open>Descriptor exchange (unix domain sockets)\<close>

subsection \<open>The process: descriptor table and handle objects\<close>

type_synonym fd = int

text \<open>Addresses of \<open>*os.File\<close> objects and of connection objects.\<close>

type_synonym fileptr = nat
type_synonym connptr = nat

text \<open>
  The state of the process that runs the functions. \<open>table\<close> is the kernel's set of
  descriptors open in the process, \<open>closes\<close> the \<open>close(2)\<close> calls issued so far
  (oldest first). \<open>files\<close> and \<open>conns\<close> are the store of handle objects: a
  \<open>*os.File\<close> or a connection is a pointer, shared between caller and callee, to an
  object that holds its descriptor while it is open and nothing once it is closed.
  \<open>nfiles\<close> is the next unused \<open>*os.File\<close> address.
\<close>

record world =
  table :: "fd set"
  closes :: "fd list"
  files :: "fileptr \<Rightarrow> fd option"
  conns :: "connptr \<Rightarrow> fd option"
  nfiles :: fileptr

text \<open>\<open>syscall.Close(fd)\<close>: the call is issued whatever the descriptor is.\<close>

definition syscall_Close :: "fd \<Rightarrow> world \<Rightarrow> error option \<times> world" where
  "syscall_Close d w =
     (if d \<in> table w then None else Some EBADF,
      w\<lparr>table := table w - {d}, closes := closes w @ [d]\<rparr>)"

text \<open>
  \<open>(*os.File).Close\<close>: the first call releases the descriptor; a call on a file that is
  already closed returns an error and issues no \<open>close(2)\<close>.
\<close>

definition File_Close :: "fileptr \<Rightarrow> world \<Rightarrow> error option \<times> world" where
  "File_Close f w =
     (case files w f of
        None \<Rightarrow> (Some ErrClosed, w)
      | Some d \<Rightarrow>
          (case syscall_Close d w of
             (e, w') \<Rightarrow> (e, w'\<lparr>files := (files w')(f := None)\<rparr>)))"

text \<open>\<open>(*os.File).Fd\<close>: the descriptor, or \<open>-1\<close> once the file is closed.\<close>

definition File_Fd :: "fileptr \<Rightarrow> world \<Rightarrow> fd" where
  "File_Fd f w = (case files w f of None \<Rightarrow> - 1 | Some d \<Rightarrow> d)"

text \<open>\<open>os.NewFile(fd, "")\<close>: a new file object around an existing descriptor.\<close>

definition NewFile :: "fd \<Rightarrow> world \<Rightarrow> fileptr \<times> world" where
  "NewFile d w = (nfiles w, w\<lparr>files := (files w)(nfiles w := Some d), nfiles := nfiles w + 1\<rparr>)"

text \<open>
  A \<open>net.Conn\<close> value as \<open>SendUnixConn\<close> receives it: the connection object, whether
  its dynamic type has a \<open>File\<close> method (the interface \<open>fileConn\<close>), and what the
  kernel answers when \<open>File\<close> duplicates the connection's descriptor.
\<close>

record Conn =
  ptr :: connptr
  fileConn :: bool
  dup :: "error + fd"

text \<open>\<open>conn.Close()\<close>: as for files; the source ignores the result.\<close>

definition Conn_Close :: "connptr \<Rightarrow> world \<Rightarrow> error option \<times> world" where
  "Conn_Close c w =
     (case conns w c of
        None \<Rightarrow> (Some ErrClosed, w)
      | Some d \<Rightarrow>
          (case syscall_Close d w of
             (e, w') \<Rightarrow> (e, w'\<lparr>conns := (conns w')(c := None)\<rparr>)))"

text \<open>
  \<open>c.File()\<close>: duplicates the connection's descriptor and wraps the duplicate in a new
  file object; the connection keeps its own descriptor.
\<close>

definition Conn_File :: "Conn \<Rightarrow> world \<Rightarrow> (error + fileptr) \<times> world" where
  "Conn_File c w =
     (case conns w (ptr c) of
        None \<Rightarrow> (Inl EINVAL, w)
      | Some d \<Rightarrow>
          (case dup c of
             Inl e \<Rightarrow> (Inl e, w)
           | Inr d' \<Rightarrow>
               (case NewFile d' (w\<lparr>table := insert d' (table w)\<rparr>) of
                  (f, w') \<Rightarrow> (Inr f, w'))))"

subsection \<open>Control messages (package \<open>syscall\<close>, linux/amd64)\<close>

text \<open>
  A call either returns its results or panics: \<open>SendUnixConn\<close> when the type assertion
  \<open>conn.(fileConn)\<close> fails, \<open>syscall.ParseUnixRights\<close> when it indexes past its result.
\<close>

datatype 'a result = Return 'a | Panic error

text \<open>
  The header of a control message, \<open>syscall.Cmsghdr\<close>: sixteen bytes, aligned to eight.
\<close>

record Cmsghdr =
  Len :: nat
  Level :: int
  Type :: int

definition SizeofCmsghdr :: nat where
  "SizeofCmsghdr = 16"

definition SOL_SOCKET :: int where
  "SOL_SOCKET = 1"

definition SCM_RIGHTS :: int where
  "SCM_RIGHTS = 1"

text \<open>\<open>(salen + salign - 1) & ^(salign - 1)\<close> with \<open>salign = 8\<close>.\<close>

definition cmsgAlignOf :: "nat \<Rightarrow> nat" where
  "cmsgAlignOf salen = (salen + 7) div 8 * 8"

definition CmsgLen :: "nat \<Rightarrow> nat" where
  "CmsgLen datalen = cmsgAlignOf SizeofCmsghdr + datalen"

definition CmsgSpace :: "nat \<Rightarrow> nat" where
  "CmsgSpace datalen = cmsgAlignOf SizeofCmsghdr + cmsgAlignOf datalen"

text \<open>
  A byte slice that holds ancillary data, as the functions of \<open>syscall\<close> read it: its
  length, the header that the bytes from an offset on spell (\<open>(*Cmsghdr)(&b[i])\<close>), and
  the 32-bit integer that the four bytes at an offset spell (\<open>*(*int32)(&b[i])\<close>).
\<close>

record oob =
  len :: nat
  hdr_at :: "nat \<Rightarrow> Cmsghdr"
  int32_at :: "nat \<Rightarrow> int"

text \<open>\<open>make([]byte, n)\<close>: \<open>n\<close> zero bytes.\<close>

definition make_bytes :: "nat \<Rightarrow> oob" where
  "make_bytes n = \<lparr>len = n, hdr_at = (\<lambda>i. \<lparr>Len = 0, Level = 0, Type = 0\<rparr>), int32_at = (\<lambda>i. 0)\<rparr>"

text \<open>The slices \<open>b[i:]\<close> and \<open>b[lo:hi]\<close>.\<close>

definition slice_from :: "oob \<Rightarrow> nat \<Rightarrow> oob" where
  "slice_from b i =
     \<lparr>len = len b - i, hdr_at = (\<lambda>j. hdr_at b (i + j)), int32_at = (\<lambda>j. int32_at b (i + j))\<rparr>"

definition slice :: "oob \<Rightarrow> nat \<Rightarrow> nat \<Rightarrow> oob" where
  "slice b lo hi =
     \<lparr>len = hi - lo, hdr_at = (\<lambda>j. hdr_at b (lo + j)), int32_at = (\<lambda>j. int32_at b (lo + j))\<rparr>"

record SocketControlMessage =
  Header :: Cmsghdr
  Data :: oob

text \<open>
  \<open>socketControlMessageHeaderAndData(b)\<close>: the header at the start of \<open>b\<close> and the
  data it announces, or \<open>EINVAL\<close> when the announced length is less than a header or
  more than \<open>b\<close> holds.
\<close>

definition socketControlMessageHeaderAndData :: "oob \<Rightarrow> error + Cmsghdr \<times> oob" where
  "socketControlMessageHeaderAndData b =
     (let h = hdr_at b 0
      in if Len h < SizeofCmsghdr \<or> len b < Len h then Inl EINVAL
         else Inr (h, slice b (cmsgAlignOf SizeofCmsghdr) (Len h)))"

text \<open>
  \<open>syscall.ParseSocketControlMessage(b)\<close>: the loop
  \<open>for i+CmsgLen(0) <= len(b) { ...; i += cmsgAlignOf(int(h.Len)) }\<close>, from offset \<open>i\<close>
  with the messages found so far.
\<close>

function parse_from :: "oob \<Rightarrow> nat \<Rightarrow> SocketControlMessage list \<Rightarrow> error + SocketControlMessage list" where
  "parse_from b i msgs =
     (if i + CmsgLen 0 \<le> len b then
        (case socketControlMessageHeaderAndData (slice_from b i) of
           Inl err \<Rightarrow> Inl err
         | Inr (h, dbuf) \<Rightarrow>
             parse_from b (i + cmsgAlignOf (Len h)) (msgs @ [\<lparr>Header = h, Data = dbuf\<rparr>]))
      else Inr msgs)"
  by pat_completeness auto
termination
proof (relation "measure (\<lambda>(b, i, msgs). len b - i)")
  show "wf (measure (\<lambda>(b, i, msgs). len b - i))"
    by simp
next
  fix b :: oob and i :: nat and msgs :: "SocketControlMessage list" and x2 h dbuf
  assume a: "i + CmsgLen 0 \<le> len b"
    and b: "socketControlMessageHeaderAndData (slice_from b i) = Inr x2"
    and c: "(h, dbuf) = x2"
  from b c have "SizeofCmsghdr \<le> Len h"
    by (auto simp add: socketControlMessageHeaderAndData_def Let_def split: if_splits)
  then have "0 < cmsgAlignOf (Len h)"
    by (simp add: cmsgAlignOf_def SizeofCmsghdr_def)
  with a show "((b, i + cmsgAlignOf (Len h), msgs @ [\<lparr>Header = h, Data = dbuf\<rparr>]), (b, i, msgs))
      \<in> measure (\<lambda>(b, i, msgs). len b - i)"
    by (simp add: CmsgLen_def cmsgAlignOf_def SizeofCmsghdr_def)
qed

declare parse_from.simps [simp del]

definition ParseSocketControlMessage :: "oob \<Rightarrow> error + SocketControlMessage list" where
  "ParseSocketControlMessage b = parse_from b 0 []"

text \<open>
  \<open>syscall.ParseUnixRights(m)\<close>. It makes \<open>len(m.Data)>>2\<close> integers and fills them in
  a loop that advances four bytes at a time while it is inside the data, so it indexes
  past them, and panics, when the length of the data is not a multiple of four.
\<close>

definition ParseUnixRights :: "SocketControlMessage \<Rightarrow> (error + fd list) result" where
  "ParseUnixRights m =
     (if Level (Header m) \<noteq> SOL_SOCKET then Return (Inl EINVAL)
      else if Type (Header m) \<noteq> SCM_RIGHTS then Return (Inl EINVAL)
      else if len (Data m) mod 4 \<noteq> 0 then Panic IndexOutOfRange
      else Return (Inr (map (\<lambda>j. int32_at (Data m) (4 * j)) [0..<len (Data m) div 4])))"

text \<open>
  \<open>syscall.UnixRights(fds...)\<close>: a buffer of \<open>CmsgSpace(4 * len(fds))\<close> bytes with one
  header of level \<open>SOL_SOCKET\<close> and type \<open>SCM_RIGHTS\<close>, followed by the descriptors,
  four bytes each (a descriptor fits in them).
\<close>

definition UnixRights :: "fd list \<Rightarrow> oob" where
  "UnixRights fds =
     \<lparr>len = CmsgSpace (4 * length fds),
      hdr_at = (\<lambda>i. if i = 0
                 then \<lparr>Len = CmsgLen (4 * length fds), Level = SOL_SOCKET, Type = SCM_RIGHTS\<rparr>
                 else \<lparr>Len = 0, Level = 0, Type = 0\<rparr>),
      int32_at = (\<lambda>i. if cmsgAlignOf SizeofCmsghdr \<le> i \<and> (i - cmsgAlignOf SizeofCmsghdr) mod 4 = 0
                        \<and> (i - cmsgAlignOf SizeofCmsghdr) div 4 < length fds
                   then fds ! ((i - cmsgAlignOf SizeofCmsghdr) div 4) else 0)\<rparr>"

text \<open>
  The descriptors that a buffer carries: those of its blocks of type \<open>SCM_RIGHTS\<close>.
  They are the ones the kernel has installed in the process when the receive that filled
  the buffer came back.
\<close>

definition embedded :: "SocketControlMessage \<Rightarrow> fd list" where
  "embedded m = (case ParseUnixRights m of Return (Inr fds) \<Rightarrow> fds | _ \<Rightarrow> [])"

definition received :: "oob \<Rightarrow> fd list" where
  "received b =
     (case ParseSocketControlMessage b of Inl e \<Rightarrow> [] | Inr msg \<Rightarrow> concat (map embedded msg))"

text \<open>
  The \<open>*net.UnixConn\<close> the functions are given, seen from the process: what the peer
  answers to the one send, and what the kernel has for the one receive a call performs.
\<close>

record UnixConn =
  WriteMsgUnix :: "oob \<Rightarrow> error option"
  ReadMsgUnix :: "error + oob"

text \<open>
  \<open>ReadMsgUnix(nil, oob)\<close> writes into the buffer it is given: what the buffer holds
  afterwards is the kernel's, its length stays what it was.
\<close>

definition recvmsg :: "oob \<Rightarrow> oob \<Rightarrow> oob" where
  "recvmsg buf k = k\<lparr>len := len buf\<rparr>"

subsection \<open>The source functions\<close>

definition SendUnixFile :: "UnixConn \<Rightarrow> fileptr \<Rightarrow> world \<Rightarrow> error option \<times> world" where
  "SendUnixFile socket file w =
     (let fds = [File_Fd file w];
          oob = UnixRights fds
      in case WriteMsgUnix socket oob of
           Some err \<Rightarrow> (Some err, w)
         | None \<Rightarrow> (None, snd (File_Close file w)))"

text \<open>
  \<open>defer f.Close()\<close> runs on both returns that follow a successful \<open>c.File()\<close>, after
  everything else the function does.
\<close>

definition SendUnixConn :: "UnixConn \<Rightarrow> Conn \<Rightarrow> world \<Rightarrow> error option result \<times> world" where
  "SendUnixConn socket conn w =
     (if \<not> fileConn conn then (Panic TypeAssertion, w)
      else
        (case Conn_File conn w of
           (Inl err, w1) \<Rightarrow> (Return (Some err), w1)
         | (Inr f, w1) \<Rightarrow>
             (case SendUnixFile socket f w1 of
                (Some err, w2) \<Rightarrow> (Return (Some err), snd (File_Close f w2))
              | (None, w2) \<Rightarrow>
                  (let w3 = snd (Conn_Close (ptr conn) w2)
                   in (Return None, snd (File_Close f w3))))))"

text \<open>The loop \<open>for _, fd := range fds { syscall.Close(fd) }\<close>.\<close>

fun close_each :: "fd list \<Rightarrow> world \<Rightarrow> world" where
  "close_each [] w = w"
| "close_each (d # ds) w = close_each ds (snd (syscall_Close d w))"

text \<open>
  \<open>RecvUnixFile\<close>. It receives into a buffer of \<open>CmsgSpace(4)\<close> bytes and parses the
  whole buffer. A successful \<open>ReadMsgUnix\<close> has made the kernel install the descriptors
  that the buffer carries in the table of the process. The result is the error (and a
  nil file), or the new file.
\<close>

definition RecvUnixFile :: "UnixConn \<Rightarrow> world \<Rightarrow> (error + fileptr) result \<times> world" where
  "RecvUnixFile socket w =
     (let oob = make_bytes (CmsgSpace 4)
      in case ReadMsgUnix socket of
           Inl err \<Rightarrow> (Return (Inl err), w)
         | Inr k \<Rightarrow>
             (let oob = recvmsg oob k;
                  w1 = w\<lparr>table := table w \<union> set (received oob)\<rparr>
              in case ParseSocketControlMessage oob of
                   Inl err \<Rightarrow>
                     (Return (Inl (NewSyscallError ''ParseSocketControlMessage'' err)), w1)
                 | Inr msg \<Rightarrow>
                     if length msg \<noteq> 1 then
                       (Return (Inl (Errorf
                          (''invalid number of socket control messages, expected 1 but found ''
                             @ itoa (length msg)))), w1)
                     else
                       (case ParseUnixRights (msg ! 0) of
                          Panic e \<Rightarrow> (Panic e, w1)
                        | Return (Inl err) \<Rightarrow>
                            (Return (Inl (NewSyscallError ''ParseUnixRights'' err)), w1)
                        | Return (Inr fds) \<Rightarrow>
                            if length fds \<noteq> 1 then
                              (Return (Inl (Errorf
                                 (''too many file descriptors found in a single control message, ''
                                    @ itoa (length fds) @ '' were closed''))),
                               close_each fds w1)
                            else
                              (case NewFile (fds ! 0) w1 of
                                 (file, w2) \<Rightarrow> (Return (Inr file), w2)))))"

section \<open>Tunnels\<close>

subsection \<open>Connections, contexts and what a run does\<close>

type_synonym bytes = string

text \<open>
  A \<open>context.Context\<close>: \<open>context.Background()\<close>, or a context a caller made and can
  cancel or give a deadline.
\<close>

datatype "context" = Background | Context nat

text \<open>
  Whether a context is done, for a given state of the cancellable contexts:
  \<open>context.Background()\<close> is never done.
\<close>

fun ctx_Done :: "(nat \<Rightarrow> bool) \<Rightarrow> context \<Rightarrow> bool" where
  "ctx_Done c Background = False"
| "ctx_Done c (Context n) = c n"

text \<open>\<open>bufio.NewReaderSize(conn, size)\<close>.\<close>

datatype reader = NewReaderSize connptr nat

text \<open>
  What a tunnel does to the outside, in order: each operation with its arguments and
  with the answer it got.
\<close>

datatype event =
    Dial "context" string string "error + connptr"
  | ServeTunnel "context" connptr connptr
  | ReadLine "context" connptr reader "error + bytes"
  | Write connptr bytes "error option"
  | Close connptr

type_synonym trace = "event list"

text \<open>
  The outside of a relay. \<open>readLine\<close> is the line reader that \<open>tunnelLine\<close> calls
  and \<open>tunnel.go\<close> does not define: given what has happened so far and its three
  arguments it answers a line or an error, and every such reader is covered.
  \<open>conn_Write\<close> is \<open>Write\<close> on a connection, whose byte count \<open>tunnelLine\<close> drops.
\<close>

record peers =
  readLine :: "trace \<Rightarrow> context \<Rightarrow> connptr \<Rightarrow> reader \<Rightarrow> error + bytes"
  conn_Write :: "trace \<Rightarrow> connptr \<Rightarrow> bytes \<Rightarrow> error option"

text \<open>A call of a handler or of \<open>ServeProxy\<close> returns or panics.\<close>

datatype outcome = Returned | Panicked error

text \<open>
  Modelled from the spec: the helper \<open>fatal(conn, err)\<close>, which \<open>tunnelLine\<close> calls
  and \<open>tunnel.go\<close> does not define. The spec: it "closes a connection and terminates
  the current relay's execution path abruptly", "signaling the error to whatever invoked
  the relay".
\<close>

definition fatal :: "connptr \<Rightarrow> error \<Rightarrow> trace \<Rightarrow> outcome \<times> trace" where
  "fatal c err h = (Panicked err, h @ [Close c])"

subsection \<open>TunnelLine\<close>

text \<open>One execution of the body of the \<open>for\<close> loop: it goes round again, or leaves.\<close>

datatype flow = Continue | Exit outcome

definition leave :: "outcome \<times> trace \<Rightarrow> flow \<times> trace" where
  "leave r = (Exit (fst r), snd r)"

definition tunnelLine_body ::
  "peers \<Rightarrow> context \<Rightarrow> connptr \<Rightarrow> connptr \<Rightarrow> reader \<Rightarrow> reader \<Rightarrow> trace \<Rightarrow> flow \<times> trace" where
  "tunnelLine_body P ctx from to r1 r2 h =
     (let res1 = readLine P h ctx from r1;
          h1 = h @ [ReadLine ctx from r1 res1]
      in case res1 of
           Inl err \<Rightarrow>
             if err = EOF \<or> err = Canceled then (Exit Returned, h1)
             else leave (fatal from err h1)
         | Inr line \<Rightarrow>
             (let w1 = conn_Write P h1 to line;
                  h2 = h1 @ [Write to line w1]
              in case w1 of
                   Some err \<Rightarrow> leave (fatal from err h2)
                 | None \<Rightarrow>
                     (let res2 = readLine P h2 Background to r2;
                          h3 = h2 @ [ReadLine Background to r2 res2]
                      in case res2 of
                           Inl err \<Rightarrow> leave (fatal from err h3)
                         | Inr reply \<Rightarrow>
                             (let w2 = conn_Write P h3 from reply;
                                  h4 = h3 @ [Write from reply w2]
                              in case w2 of
                                   Some err \<Rightarrow> leave (fatal from err h4)
                                 | None \<Rightarrow> (Continue, h4)))))"

text \<open>The loop has no bound: a run in which every read and write succeeds never ends.\<close>

partial_function (option) tunnelLine_loop ::
  "peers \<Rightarrow> context \<Rightarrow> connptr \<Rightarrow> connptr \<Rightarrow> reader \<Rightarrow> reader \<Rightarrow> trace \<Rightarrow> (outcome \<times> trace) option" where
  "tunnelLine_loop P ctx from to r1 r2 h =
     (case tunnelLine_body P ctx from to r1 r2 h of
        (Continue, h') \<Rightarrow> tunnelLine_loop P ctx from to r1 r2 h'
      | (Exit r, h') \<Rightarrow> Some (r, h'))"

definition tunnelLine ::
  "peers \<Rightarrow> context \<Rightarrow> connptr \<Rightarrow> connptr \<Rightarrow> trace \<Rightarrow> (outcome \<times> trace) option" where
  "tunnelLine P ctx from to h =
     (let r1 = NewReaderSize from 8192;
          r2 = NewReaderSize to 8192
      in tunnelLine_loop P ctx from to r1 r2 h)"

subsection \<open>Tunnel.ServeProxy\<close>

record Addr =
  Network :: string
  String :: string

type_synonym dialer = "trace \<Rightarrow> context \<Rightarrow> string \<Rightarrow> string \<Rightarrow> error + connptr"

text \<open>
  A \<open>TunnelHandler\<close>: \<open>ServeTunnel(ctx, from, to)\<close> returns, panics, or never comes
  back (\<open>None\<close>).
\<close>

type_synonym TunnelHandler =
  "context \<Rightarrow> connptr \<Rightarrow> connptr \<Rightarrow> trace \<Rightarrow> (outcome \<times> trace) option"

text \<open>The struct \<open>Tunnel\<close>; either field can be nil.\<close>

record Tunnel =
  Handler :: "TunnelHandler option"
  DialContext :: "dialer option"

definition TunnelLine :: "peers \<Rightarrow> TunnelHandler" where
  "TunnelLine P = tunnelLine P"

text \<open>
  \<open>ServeProxy\<close>. \<open>Dialer\<close> is \<open>(&net.Dialer{Timeout: d}).DialContext\<close> of the network
  the process runs on, the timeout in seconds. \<open>defer to.Close()\<close> runs when the
  function returns and when a panic passes through it; calling a method of a nil
  \<open>Handler\<close> panics.
\<close>

definition ServeProxy ::
  "(nat \<Rightarrow> dialer) \<Rightarrow> Tunnel \<Rightarrow> context \<Rightarrow> connptr \<Rightarrow> Addr \<Rightarrow> trace \<Rightarrow> (outcome \<times> trace) option" where
  "ServeProxy Dialer t ctx from target h =
     (let dial = (case DialContext t of None \<Rightarrow> Dialer 10 | Some d \<Rightarrow> d);
          res = dial h ctx (Network target) (String target);
          h1 = h @ [Dial ctx (Network target) (String target) res]
      in case res of
           Inl err \<Rightarrow> Some (Panicked err, h1)
         | Inr to \<Rightarrow>
             (case Handler t of
                None \<Rightarrow> Some (Panicked NilDereference, h1 @ [Close to])
              | Some serve \<Rightarrow>
                  (case serve ctx from to (h1 @ [ServeTunnel ctx from to]) of
                     None \<Rightarrow> None
                   | Some (r, h2) \<Rightarrow> Some (r, h2 @ [Close to]))))"

subsection \<open>TunnelRaw\<close>













subsection \<open>Which operations a cancellation can reach\<close>

text \<open>
  The context an operation is given, if it takes one: \<open>Write\<close> and \<open>Close\<close> on a
  connection take none.
\<close>

fun given_ctx :: "event \<Rightarrow> context option" where
  "given_ctx (Dial ctx n a res) = Some ctx"
| "given_ctx (ServeTunnel ctx a b) = Some ctx"
| "given_ctx (ReadLine ctx c r res) = Some ctx"
| "given_ctx (Write c b res) = None"
| "given_ctx (Close c) = None"

text \<open>An operation can be cancelled when it was given a context that can be done.\<close>

fun cancellable :: "event \<Rightarrow> bool" where
  "cancellable e = (case given_ctx e of Some (Context n) \<Rightarrow> True | _ \<Rightarrow> False)"

text \<open>What a call added to the log (of events, of \<open>close(2)\<close> calls) it started from.\<close>

definition added :: "'a list \<Rightarrow> 'a list \<Rightarrow> 'a list" where
  "added h h' = drop (length h) h'"

section \<open>Example inputs\<close>

text \<open>
  A process with descriptors 0 to 3 open, of which 3 belongs to the connection object at
  address 7; no file object exists yet.
\<close>

definition a_world :: world where
  "a_world =
     \<lparr>table = {0, 1, 2, 3}, closes = [], files = (\<lambda>f. None),
      conns = (\<lambda>c. if c = 7 then Some 3 else None), nfiles = 0\<rparr>"

text \<open>That connection, as a TCP connection whose \<open>File\<close> will get descriptor 4.\<close>

definition a_conn :: Conn where
  "a_conn = \<lparr>ptr = 7, fileConn = True, dup = Inr 4\<rparr>"

text \<open>The same connection when the kernel refuses the duplicate (\<open>EMFILE\<close>).\<close>

definition a_conn_nodup :: Conn where
  "a_conn_nodup = \<lparr>ptr = 7, fileConn = True, dup = Inl (Errno 24)\<rparr>"

text \<open>A socket whose peer takes every message and on which the given buffer arrives.\<close>

definition a_socket :: "oob \<Rightarrow> UnixConn" where
  "a_socket k = \<lparr>WriteMsgUnix = (\<lambda>x. None), ReadMsgUnix = Inr k\<rparr>"

text \<open>Peers whose every line read fails with the given error; writes succeed.\<close>

definition failing :: "error \<Rightarrow> peers" where
  "failing e = \<lparr>readLine = (\<lambda>h ctx c r. Inl e), conn_Write = (\<lambda>h c b. None)\<rparr>"

text \<open>
  The inbound connection 1 sends \<open>PING\<close> and then ends; the target, connection 2,
  answers every line with \<open>PONG\<close>.
\<close>

fun is_Write :: "event \<Rightarrow> bool" where
  "is_Write (Write c b res) = True"
| "is_Write e = False"

definition ping_pong :: peers where
  "ping_pong =
     \<lparr>readLine = (\<lambda>h ctx c r.
         if c = 1 then (if list_ex is_Write h then Inl EOF else Inr ''PING\<newline>'')
         else Inr ''PONG\<newline>''),
      conn_Write = (\<lambda>h c b. None)\<rparr>"

text \<open>A dial function that reaches no one (\<open>ECONNREFUSED\<close>), and one that yields connection 2.\<close>

definition refused :: dialer where
  "refused h ctx network address = Inl (Errno 111)"

definition connected :: dialer where
  "connected h ctx network address = Inr 2"

definition a_target :: Addr where
  "a_target = \<lparr>Network = ''tcp'', String = ''127.0.0.1:4242''\<rparr>"

section \<open>Properties of the descriptor exchange\<close>

text \<open>The decimal form of a number tells the number: a message that carries it reports it.\<close>

lemma digit_inject: "m < 10 \<Longrightarrow> n < 10 \<Longrightarrow> digit m = digit n \<Longrightarrow> m = n"
proof -
  assume m: "m < 10" and n: "n < 10" and e: "digit m = digit n"
  from m have "m \<in> {0, 1, 2, 3, 4, 5, 6, 7, 8, 9}" by auto
  moreover from n have "n \<in> {0, 1, 2, 3, 4, 5, 6, 7, 8, 9}" by auto
  ultimately show ?thesis using e by (auto simp add: digit_def)
qed

lemma itoa_length: "0 < length (itoa n)"
  by (subst itoa.simps) simp

lemma itoa_length_big: "10 \<le> n \<Longrightarrow> 1 < length (itoa n)"
  using itoa_length [of "n div 10"] by (subst itoa.simps) simp

lemma itoa_inject: "itoa m = itoa n \<Longrightarrow> m = n"
proof (induction m arbitrary: n rule: itoa.induct)
  case (1 m)
  show ?case
  proof (cases "m < 10")
    case True
    then have lm: "itoa m = [digit m]" by (subst itoa.simps) simp
    show ?thesis
    proof (cases "n < 10")
      case True
      then have "itoa n = [digit n]" by (subst itoa.simps) simp
      with lm "1.prems" have "digit m = digit n" by simp
      with \<open>m < 10\<close> True show ?thesis by (rule digit_inject)
    next
      case False
      then have "10 \<le> n" by simp
      then have "1 < length (itoa n)" by (rule itoa_length_big)
      with lm "1.prems" show ?thesis by simp
    qed
  next
    case False
    then have lm: "itoa m = itoa (m div 10) @ [digit (m mod 10)]" by (subst itoa.simps) simp
    show ?thesis
    proof (cases "n < 10")
      case True
      then have "itoa n = [digit n]" by (subst itoa.simps) simp
      moreover from False have "10 \<le> m" by simp
      then have "1 < length (itoa m)" by (rule itoa_length_big)
      ultimately show ?thesis using "1.prems" by simp
    next
      case nbig: False
      then have "itoa n = itoa (n div 10) @ [digit (n mod 10)]" by (subst itoa.simps) simp
      with lm "1.prems" have a: "itoa (m div 10) = itoa (n div 10)"
        and b: "digit (m mod 10) = digit (n mod 10)" by simp_all
      from "1.IH" [OF False a] have "m div 10 = n div 10" .
      moreover from b have "m mod 10 = n mod 10" by (intro digit_inject) simp_all
      ultimately show ?thesis by (metis div_mult_mod_eq)
    qed
  qed
qed

lemma close_each_closes: "closes (close_each ds w) = closes w @ ds"
  by (induction ds arbitrary: w) (simp_all add: syscall_Close_def)

lemma close_each_table: "table (close_each ds w) = table w - set ds"
  by (induction ds arbitrary: w) (auto simp add: syscall_Close_def)

lemma close_each_files: "files (close_each ds w) = files w"
  by (induction ds arbitrary: w) (simp_all add: syscall_Close_def)

lemma close_each_nfiles: "nfiles (close_each ds w) = nfiles w"
  by (induction ds arbitrary: w) (simp_all add: syscall_Close_def)

text \<open>
  A second \<open>Close\<close> on the same file object answers \<open>ErrClosed\<close> and changes nothing:
  this is what the deferred \<open>f.Close()\<close> of \<open>SendUnixConn\<close> does after
  \<open>SendUnixFile\<close> has closed the file.
\<close>

lemma File_Close_again:
  "File_Close f (snd (File_Close f w)) = (Some ErrClosed, snd (File_Close f w))"
  by (simp add: File_Close_def syscall_Close_def split: option.splits)

text \<open>A failed \<open>File\<close> leaves the process as it was.\<close>

lemma Conn_File_error: "fst (Conn_File c w) = Inl err \<Longrightarrow> snd (Conn_File c w) = w"
  by (auto simp add: Conn_File_def NewFile_def split: option.splits sum.splits)

subsection \<open>Receiving: what the buffer can hold\<close>

lemma slice_from_0: "slice_from b 0 = b"
  by (simp add: slice_from_def)

lemma cmsgAlignOf_ge: "n \<le> cmsgAlignOf n"
  by (simp add: cmsgAlignOf_def)

lemma len_recvmsg: "len (recvmsg (make_bytes n) k) = n"
  by (simp add: recvmsg_def make_bytes_def)

text \<open>
  On a buffer of \<open>CmsgSpace(4)\<close> bytes the loop of \<open>ParseSocketControlMessage\<close> runs
  its body once: the first header fits, and behind a block of at least a header's length
  no second header fits.
\<close>

lemma parse_one_block:
  assumes "len b = CmsgSpace 4"
  shows "ParseSocketControlMessage b =
    (case socketControlMessageHeaderAndData b of
       Inl err \<Rightarrow> Inl err
     | Inr (h, dbuf) \<Rightarrow> Inr [\<lparr>Header = h, Data = dbuf\<rparr>])"
proof (cases "socketControlMessageHeaderAndData b")
  case (Inl err)
  with assms show ?thesis
    by (simp add: ParseSocketControlMessage_def parse_from.simps [of b 0] slice_from_0
        CmsgSpace_def CmsgLen_def)
next
  case (Inr x)
  obtain h dbuf where x: "x = (h, dbuf)"
    by (cases x)
  from Inr x have "SizeofCmsghdr \<le> Len h"
    by (auto simp add: socketControlMessageHeaderAndData_def Let_def split: if_splits)
  with cmsgAlignOf_ge [of "Len h"] have "16 \<le> cmsgAlignOf (Len h)"
    by (simp add: SizeofCmsghdr_def)
  with assms have stop: "\<not> cmsgAlignOf (Len h) + CmsgLen 0 \<le> len b"
    by (simp add: CmsgSpace_def CmsgLen_def cmsgAlignOf_def SizeofCmsghdr_def)
  from assms have go: "0 + CmsgLen 0 \<le> len b"
    by (simp add: CmsgSpace_def CmsgLen_def)
  show ?thesis
    using Inr x go stop
    by (simp add: ParseSocketControlMessage_def parse_from.simps [of b 0] slice_from_0
        parse_from.simps [of b "cmsgAlignOf (Len h)"])
qed

lemma parse_received:
  "ParseSocketControlMessage (recvmsg (make_bytes (CmsgSpace 4)) k) =
    (case socketControlMessageHeaderAndData (recvmsg (make_bytes (CmsgSpace 4)) k) of
       Inl err \<Rightarrow> Inl err
     | Inr (h, dbuf) \<Rightarrow> Inr [\<lparr>Header = h, Data = dbuf\<rparr>])"
  by (rule parse_one_block) (rule len_recvmsg)

text \<open>What the buffer spells when \<open>UnixRights(fds...)\<close> of one or two descriptors arrives in it.\<close>

lemma parse_UnixRights_1:
  "ParseSocketControlMessage (recvmsg (make_bytes (CmsgSpace 4)) (UnixRights [a])) =
     Inr [\<lparr>Header = \<lparr>Len = 20, Level = SOL_SOCKET, Type = SCM_RIGHTS\<rparr>,
           Data = slice (recvmsg (make_bytes (CmsgSpace 4)) (UnixRights [a])) 16 20\<rparr>]"
  by (subst parse_received)
     (simp add: socketControlMessageHeaderAndData_def Let_def recvmsg_def slice_def
        make_bytes_def UnixRights_def CmsgSpace_def CmsgLen_def cmsgAlignOf_def SizeofCmsghdr_def)

lemma parse_UnixRights_2:
  "ParseSocketControlMessage (recvmsg (make_bytes (CmsgSpace 4)) (UnixRights [a, b])) =
     Inr [\<lparr>Header = \<lparr>Len = 24, Level = SOL_SOCKET, Type = SCM_RIGHTS\<rparr>,
           Data = slice (recvmsg (make_bytes (CmsgSpace 4)) (UnixRights [a, b])) 16 24\<rparr>]"
  by (subst parse_received)
     (simp add: socketControlMessageHeaderAndData_def Let_def recvmsg_def slice_def
        make_bytes_def UnixRights_def CmsgSpace_def CmsgLen_def cmsgAlignOf_def SizeofCmsghdr_def)

lemma rights_UnixRights_1:
  "ParseUnixRights \<lparr>Header = \<lparr>Len = 20, Level = SOL_SOCKET, Type = SCM_RIGHTS\<rparr>,
      Data = slice (recvmsg (make_bytes (CmsgSpace 4)) (UnixRights [a])) 16 20\<rparr> = Return (Inr [a])"
  by (simp add: ParseUnixRights_def slice_def recvmsg_def UnixRights_def cmsgAlignOf_def
      SizeofCmsghdr_def upt_rec)

lemma rights_UnixRights_2:
  "ParseUnixRights \<lparr>Header = \<lparr>Len = 24, Level = SOL_SOCKET, Type = SCM_RIGHTS\<rparr>,
      Data = slice (recvmsg (make_bytes (CmsgSpace 4)) (UnixRights [a, b])) 16 24\<rparr> = Return (Inr [a, b])"
  by (simp add: ParseUnixRights_def slice_def recvmsg_def UnixRights_def cmsgAlignOf_def
      SizeofCmsghdr_def upt_rec)


text \<open>A whole transfer: the descriptor that arrives alone is wrapped in a new file.\<close>

lemma RecvUnixFile_one_descriptor:
  "RecvUnixFile (a_socket (UnixRights [5])) a_world =
     (Return (Inr 0),
      a_world\<lparr>table := {0, 1, 2, 3, 5}, files := (files a_world)(0 := Some 5), nfiles := 1\<rparr>)"
  by (simp add: RecvUnixFile_def a_socket_def Let_def received_def embedded_def
      parse_UnixRights_1 rights_UnixRights_1 NewFile_def)
     (auto simp add: a_world_def)



subsection \<open>Receiving: the number of control-message blocks\<close>



subsection \<open>Receiving: the number of descriptors in the block\<close>

text \<open>
  Claim C2. For every receive whose single control-message block embeds a number of
  descriptors different from one, \<open>RecvUnixFile\<close> issues \<open>close(2)\<close> on every descriptor
  of the block, in order, so that none of them is open afterwards; it returns the error
  whose message carries that number, and no other number; and it creates no file object,
  so no descriptor goes to the caller.
\<close>

theorem RecvUnixFile_descriptor_count:
  assumes "ReadMsgUnix socket = Inr k"
    and "ParseSocketControlMessage (recvmsg (make_bytes (CmsgSpace 4)) k) = Inr [m]"
    and "ParseUnixRights m = Return (Inr fds)"
    and "length fds \<noteq> 1"
  shows "fst (RecvUnixFile socket w) =
           Return (Inl (Errorf (''too many file descriptors found in a single control message, ''
                  @ itoa (length fds) @ '' were closed'')))
       \<and> (fst (RecvUnixFile socket w) =
           Return (Inl (Errorf (''too many file descriptors found in a single control message, ''
                  @ itoa n @ '' were closed''))) \<longrightarrow> n = length fds)
       \<and> closes (snd (RecvUnixFile socket w)) = closes w @ fds
       \<and> table (snd (RecvUnixFile socket w)) = table w - set fds
       \<and> files (snd (RecvUnixFile socket w)) = files w
       \<and> nfiles (snd (RecvUnixFile socket w)) = nfiles w"
proof -
  have rec: "received (recvmsg (make_bytes (CmsgSpace 4)) k) = fds"
    using assms(2,3) by (simp add: received_def embedded_def)
  have r: "RecvUnixFile socket w =
      (Return (Inl (Errorf (''too many file descriptors found in a single control message, ''
              @ itoa (length fds) @ '' were closed''))),
       close_each fds (w\<lparr>table := table w \<union> set fds\<rparr>))"
    using assms by (simp add: RecvUnixFile_def rec Let_def)
  have "n = length fds" if "itoa (length fds) @ '' were closed'' = itoa n @ '' were closed''"
    using that itoa_inject [of "length fds" n] by simp
  then show ?thesis
    by (simp add: r Un_Diff close_each_closes close_each_table close_each_files
        close_each_nfiles)
qed

text \<open>The theorem at a block that embeds the two descriptors 5 and 6.\<close>

theorem RecvUnixFile_descriptor_count_witness:
  "ReadMsgUnix (a_socket (UnixRights [5, 6])) = Inr (UnixRights [5, 6])
 \<and> ParseSocketControlMessage (recvmsg (make_bytes (CmsgSpace 4)) (UnixRights [5, 6])) =
      Inr [\<lparr>Header = \<lparr>Len = 24, Level = SOL_SOCKET, Type = SCM_RIGHTS\<rparr>,
            Data = slice (recvmsg (make_bytes (CmsgSpace 4)) (UnixRights [5, 6])) 16 24\<rparr>]
 \<and> ParseUnixRights \<lparr>Header = \<lparr>Len = 24, Level = SOL_SOCKET, Type = SCM_RIGHTS\<rparr>,
      Data = slice (recvmsg (make_bytes (CmsgSpace 4)) (UnixRights [5, 6])) 16 24\<rparr>
      = Return (Inr [5, 6])
 \<and> length [5, 6 :: fd] \<noteq> 1
 \<and> fst (RecvUnixFile (a_socket (UnixRights [5, 6])) a_world) =
      Return (Inl (Errorf
        ''too many file descriptors found in a single control message, 2 were closed''))
 \<and> closes (snd (RecvUnixFile (a_socket (UnixRights [5, 6])) a_world)) = [5, 6]
 \<and> table (snd (RecvUnixFile (a_socket (UnixRights [5, 6])) a_world)) = {0, 1, 2, 3}"
proof -
  have r: "ReadMsgUnix (a_socket (UnixRights [5, 6])) = Inr (UnixRights [5, 6])"
    by (simp add: a_socket_def)
  have n: "length [5, 6 :: fd] \<noteq> 1"
    by simp
  have t: "table a_world - {5, 6} = {0, 1, 2, 3}" and l: "closes a_world = []"
    by (auto simp add: a_world_def)
  have i: "itoa (length [5, 6 :: fd]) = ''2''"
    by (simp add: itoa.simps digit_def)
  note c = RecvUnixFile_descriptor_count
    [OF r parse_UnixRights_2 rights_UnixRights_2 n, where w = a_world and n = 2]
  from c r parse_UnixRights_2 [of 5 6] rights_UnixRights_2 [of 5 6] n t l i
  show ?thesis
    by simp
qed

subsection \<open>Sending a connection\<close>

text \<open>
  Claim C3. Along every execution of \<open>SendUnixConn\<close> in which \<open>File\<close> succeeds and the
  send succeeds, \<open>close(2)\<close> is issued on the extracted descriptor \<open>d'\<close> exactly once
  (the calls the function adds are that one and the one on the connection's own
  descriptor \<open>d\<close>), and afterwards the sender holds no open handle: neither \<open>d'\<close> nor
  \<open>d\<close> is open, and the file object and the connection object are closed. The function
  calls \<open>Close\<close> on the file object a second time, by its \<open>defer\<close>; that call finds
  the file closed and issues nothing (\<open>File_Close_again\<close>). The kernel gives the
  duplicate a number other than the connection's.
\<close>

theorem SendUnixConn_success_closes_once:
  assumes "fileConn conn" and "conns w (ptr conn) = Some d" and "dup conn = Inr d'"
    and "d' \<noteq> d" and "WriteMsgUnix socket (UnixRights [d']) = None"
  shows "fst (SendUnixConn socket conn w) = Return None
       \<and> closes (snd (SendUnixConn socket conn w)) = closes w @ [d', d]
       \<and> count_list (added (closes w) (closes (snd (SendUnixConn socket conn w)))) d' = 1
       \<and> table (snd (SendUnixConn socket conn w)) = table w - {d, d'}
       \<and> files (snd (SendUnixConn socket conn w)) (nfiles w) = None
       \<and> conns (snd (SendUnixConn socket conn w)) (ptr conn) = None"
  using assms
  by (auto simp add: SendUnixConn_def Conn_File_def NewFile_def SendUnixFile_def File_Fd_def
      File_Close_def Conn_Close_def syscall_Close_def added_def Let_def)

text \<open>The theorem at the example connection: 4 is closed once, then 3.\<close>

theorem SendUnixConn_success_closes_once_witness:
  "fileConn a_conn \<and> conns a_world (ptr a_conn) = Some 3 \<and> dup a_conn = Inr 4
 \<and> WriteMsgUnix (a_socket (make_bytes 0)) (UnixRights [4]) = None
 \<and> fst (SendUnixConn (a_socket (make_bytes 0)) a_conn a_world) = Return None
 \<and> closes (snd (SendUnixConn (a_socket (make_bytes 0)) a_conn a_world)) = [4, 3]
 \<and> table (snd (SendUnixConn (a_socket (make_bytes 0)) a_conn a_world)) = {0, 1, 2}"
proof -
  have a: "fileConn a_conn" and b: "conns a_world (ptr a_conn) = Some 3"
    and c: "dup a_conn = Inr 4" and d: "(4 :: fd) \<noteq> 3"
    and e: "WriteMsgUnix (a_socket (make_bytes 0)) (UnixRights [4]) = None"
    by (simp_all add: a_conn_def a_world_def a_socket_def)
  have t: "table a_world - {3, 4} = {0, 1, 2}" and l: "closes a_world = []"
    by (auto simp add: a_world_def)
  from SendUnixConn_success_closes_once [OF a b c d e] a b c e t l show ?thesis
    by simp
qed

text \<open>
  Claim C9. For every call of \<open>SendUnixConn\<close> on a connection that has a \<open>File\<close>
  method: if \<open>File\<close> fails, the error is returned and the process is as it was, the
  connection not closed; if \<open>File\<close> and the send succeed, the connection is closed. The
  file that \<open>File\<close> yields is a duplicate that does not depend on the connection
  object: it holds the new descriptor, the connection keeps its own, and closing the
  file leaves the connection open.
\<close>

theorem SendUnixConn_connection:
  assumes "fileConn conn"
  shows "(fst (Conn_File conn w) = Inl err \<longrightarrow>
            SendUnixConn socket conn w = (Return (Some err), w))
       \<and> (conns w (ptr conn) = Some d \<and> dup conn = Inr d'
            \<and> WriteMsgUnix socket (UnixRights [d']) = None \<longrightarrow>
            fst (Conn_File conn w) = Inr (nfiles w)
          \<and> files (snd (Conn_File conn w)) (nfiles w) = Some d'
          \<and> conns (snd (Conn_File conn w)) (ptr conn) = Some d
          \<and> conns (snd (File_Close (nfiles w) (snd (Conn_File conn w)))) (ptr conn) = Some d
          \<and> fst (SendUnixConn socket conn w) = Return None
          \<and> conns (snd (SendUnixConn socket conn w)) (ptr conn) = None
          \<and> d \<in> set (added (closes w) (closes (snd (SendUnixConn socket conn w)))))"
proof (intro conjI impI)
  assume f: "fst (Conn_File conn w) = Inl err"
  then have "Conn_File conn w = (Inl err, w)"
    using Conn_File_error [OF f] by (simp add: prod_eq_iff)
  with assms show "SendUnixConn socket conn w = (Return (Some err), w)"
    by (simp add: SendUnixConn_def)
next
  assume ok: "conns w (ptr conn) = Some d \<and> dup conn = Inr d'
    \<and> WriteMsgUnix socket (UnixRights [d']) = None"
  then have cf: "Conn_File conn w =
      (Inr (nfiles w),
       w\<lparr>table := insert d' (table w), files := (files w)(nfiles w := Some d'),
         nfiles := nfiles w + 1\<rparr>)"
    by (simp add: Conn_File_def NewFile_def)
  show "fst (Conn_File conn w) = Inr (nfiles w)"
    and "files (snd (Conn_File conn w)) (nfiles w) = Some d'"
    and "conns (snd (Conn_File conn w)) (ptr conn) = Some d"
    and "conns (snd (File_Close (nfiles w) (snd (Conn_File conn w)))) (ptr conn) = Some d"
    using ok by (simp_all add: cf File_Close_def syscall_Close_def)
  show "fst (SendUnixConn socket conn w) = Return None"
    and "conns (snd (SendUnixConn socket conn w)) (ptr conn) = None"
    and "d \<in> set (added (closes w) (closes (snd (SendUnixConn socket conn w))))"
    using ok assms
    by (simp_all add: SendUnixConn_def cf SendUnixFile_def File_Fd_def
        File_Close_def Conn_Close_def syscall_Close_def added_def Let_def)
qed

text \<open>
  The theorem at the example connection: once with the duplicate refused, once with the
  transfer going through.
\<close>

theorem SendUnixConn_connection_witness:
  "fileConn a_conn_nodup \<and> fst (Conn_File a_conn_nodup a_world) = Inl (Errno 24)
 \<and> SendUnixConn (a_socket (make_bytes 0)) a_conn_nodup a_world = (Return (Some (Errno 24)), a_world)
 \<and> fileConn a_conn \<and> conns a_world (ptr a_conn) = Some 3 \<and> dup a_conn = Inr 4
 \<and> WriteMsgUnix (a_socket (make_bytes 0)) (UnixRights [4]) = None
 \<and> fst (SendUnixConn (a_socket (make_bytes 0)) a_conn a_world) = Return None
 \<and> conns (snd (SendUnixConn (a_socket (make_bytes 0)) a_conn a_world)) (ptr a_conn) = None"
proof -
  have a: "fileConn a_conn_nodup" and a': "fileConn a_conn"
    by (simp_all add: a_conn_nodup_def a_conn_def)
  have f: "fst (Conn_File a_conn_nodup a_world) = Inl (Errno 24)"
    by (simp add: Conn_File_def a_conn_nodup_def a_world_def)
  have ok: "conns a_world (ptr a_conn) = Some 3 \<and> dup a_conn = Inr 4
    \<and> WriteMsgUnix (a_socket (make_bytes 0)) (UnixRights [4]) = None"
    by (simp add: a_conn_def a_world_def a_socket_def)
  from SendUnixConn_connection [OF a, of a_world "Errno 24" "a_socket (make_bytes 0)"]
    SendUnixConn_connection [OF a', of a_world _ "a_socket (make_bytes 0)" 3 4] a a' f ok
  show ?thesis
    by simp
qed

section \<open>Properties of the tunnels\<close>

lemma added_append: "added h (h @ evs) = evs"
  by (simp add: added_def)

text \<open>The loop ends where its body leaves, and otherwise goes on from the body's trace.\<close>

lemma tunnelLine_loop_Exit:
  "tunnelLine_body P ctx from to r1 r2 h = (Exit r, h') \<Longrightarrow>
   tunnelLine_loop P ctx from to r1 r2 h = Some (r, h')"
  by (subst tunnelLine_loop.simps) simp

lemma tunnelLine_loop_Continue:
  "tunnelLine_body P ctx from to r1 r2 h = (Continue, h') \<Longrightarrow>
   tunnelLine_loop P ctx from to r1 r2 h = tunnelLine_loop P ctx from to r1 r2 h'"
  by (subst tunnelLine_loop.simps) simp

lemma tunnelLine_body_end:
  "readLine P h ctx from r1 = Inl err \<Longrightarrow> err = EOF \<or> err = Canceled \<Longrightarrow>
   tunnelLine_body P ctx from to r1 r2 h = (Exit Returned, h @ [ReadLine ctx from r1 (Inl err)])"
  by (simp add: tunnelLine_body_def Let_def)

lemma tunnelLine_body_fatal:
  "readLine P h ctx from r1 = Inl err \<Longrightarrow> err \<noteq> EOF \<Longrightarrow> err \<noteq> Canceled \<Longrightarrow>
   tunnelLine_body P ctx from to r1 r2 h =
     (Exit (Panicked err), h @ [ReadLine ctx from r1 (Inl err), Close from])"
  by (simp add: tunnelLine_body_def Let_def leave_def fatal_def)

text \<open>
  A whole run: \<open>PING\<close> goes to the target, \<open>PONG\<close> comes back, and the relay returns
  when the inbound connection ends.
\<close>

lemma tunnelLine_ping_pong:
  "tunnelLine ping_pong (Context 0) 1 2 [] =
     Some (Returned,
       [ReadLine (Context 0) 1 (NewReaderSize 1 8192) (Inr ''PING\<newline>''),
        Write 2 ''PING\<newline>'' None,
        ReadLine Background 2 (NewReaderSize 2 8192) (Inr ''PONG\<newline>''),
        Write 1 ''PONG\<newline>'' None,
        ReadLine (Context 0) 1 (NewReaderSize 1 8192) (Inl EOF)])"
proof -
  let ?h = "[ReadLine (Context 0) 1 (NewReaderSize 1 8192) (Inr ''PING\<newline>''),
        Write 2 ''PING\<newline>'' None,
        ReadLine Background 2 (NewReaderSize 2 8192) (Inr ''PONG\<newline>''),
        Write 1 ''PONG\<newline>'' None]"
  have first: "tunnelLine_body ping_pong (Context 0) 1 2
      (NewReaderSize 1 8192) (NewReaderSize 2 8192) [] = (Continue, ?h)"
    by (simp add: tunnelLine_body_def ping_pong_def Let_def)
  have "readLine ping_pong ?h (Context 0) 1 (NewReaderSize 1 8192) = Inl EOF"
    by (simp add: ping_pong_def)
  then have second: "tunnelLine_body ping_pong (Context 0) 1 2
      (NewReaderSize 1 8192) (NewReaderSize 2 8192) ?h
      = (Exit Returned, ?h @ [ReadLine (Context 0) 1 (NewReaderSize 1 8192) (Inl EOF)])"
    by (rule tunnelLine_body_end) simp
  show ?thesis
    unfolding tunnelLine_def Let_def
    by (simp only: tunnelLine_loop_Continue [OF first] tunnelLine_loop_Exit [OF second]
        append.simps)
qed

subsection \<open>Tunnel.ServeProxy\<close>

text \<open>
  Claim C4. For every invocation of \<open>ServeProxy\<close> in which the dial of the target
  fails, the invocation ends in a panic that carries the dial error, and the dial is all
  it has done: the handler's \<open>ServeTunnel\<close> is not called (the result is the same
  whatever the handler is) and no connection is closed. Nothing but this attempt is
  touched.
\<close>

theorem ServeProxy_dial_failure:
  assumes "(case DialContext t of None \<Rightarrow> Dialer 10 | Some d \<Rightarrow> d)
             h ctx (Network target) (String target) = Inl err"
  shows "ServeProxy Dialer t ctx from target h =
           Some (Panicked err, h @ [Dial ctx (Network target) (String target) (Inl err)])
       \<and> ServeProxy Dialer (t\<lparr>Handler := H\<rparr>) ctx from target h =
           ServeProxy Dialer t ctx from target h"
  using assms by (simp add: ServeProxy_def Let_def)

text \<open>The theorem at a tunnel whose dial function is refused, with \<open>TunnelLine\<close> as handler.\<close>

theorem ServeProxy_dial_failure_witness:
  "(case DialContext \<lparr>Handler = Some (TunnelLine ping_pong), DialContext = Some refused\<rparr> of
      None \<Rightarrow> (\<lambda>d. connected) 10 | Some d \<Rightarrow> d)
     [] (Context 0) (Network a_target) (String a_target) = Inl (Errno 111)
 \<and> ServeProxy (\<lambda>d. connected)
      \<lparr>Handler = Some (TunnelLine ping_pong), DialContext = Some refused\<rparr>
      (Context 0) 1 a_target []
     = Some (Panicked (Errno 111), [Dial (Context 0) ''tcp'' ''127.0.0.1:4242'' (Inl (Errno 111))])"
proof -
  have d: "(case DialContext \<lparr>Handler = Some (TunnelLine ping_pong), DialContext = Some refused\<rparr> of
      None \<Rightarrow> (\<lambda>d. connected) 10 | Some d \<Rightarrow> d)
     [] (Context 0) (Network a_target) (String a_target) = Inl (Errno 111)"
    by (simp add: refused_def)
  from ServeProxy_dial_failure [OF d, of 1] d show ?thesis
    by (simp add: a_target_def)
qed

text \<open>
  Claim C8. For every invocation of \<open>ServeProxy\<close> in which the dial succeeds and the
  handler's \<open>ServeTunnel\<close> comes back, \<open>ServeProxy\<close> closes the outbound connection
  as the last thing it does and ends the way the handler ended, whether the handler
  returned or panicked.
\<close>

theorem ServeProxy_closes_outbound:
  assumes "(case DialContext t of None \<Rightarrow> Dialer 10 | Some d \<Rightarrow> d)
             h ctx (Network target) (String target) = Inr to"
    and "Handler t = Some serve"
    and "serve ctx from to
           (h @ [Dial ctx (Network target) (String target) (Inr to), ServeTunnel ctx from to])
         = Some (r, h2)"
  shows "ServeProxy Dialer t ctx from target h = Some (r, h2 @ [Close to])"
  using assms by (simp add: ServeProxy_def Let_def)

text \<open>
  The theorem at a tunnel with no dial function of its own and \<open>TunnelLine\<close> as handler,
  whose inbound read fails: the handler closes the inbound connection 1 and panics, and
  \<open>ServeProxy\<close> closes the outbound connection 2.
\<close>

theorem ServeProxy_closes_outbound_witness:
  "Handler \<lparr>Handler = Some (TunnelLine (failing ErrBufferFull)), DialContext = None\<rparr>
     = Some (TunnelLine (failing ErrBufferFull))
 \<and> ServeProxy (\<lambda>d. connected)
      \<lparr>Handler = Some (TunnelLine (failing ErrBufferFull)), DialContext = None\<rparr>
      (Context 0) 1 a_target []
     = Some (Panicked ErrBufferFull,
         [Dial (Context 0) ''tcp'' ''127.0.0.1:4242'' (Inr 2),
          ServeTunnel (Context 0) 1 2,
          ReadLine (Context 0) 1 (NewReaderSize 1 8192) (Inl ErrBufferFull),
          Close 1,
          Close 2])"
proof -
  let ?t = "\<lparr>Handler = Some (TunnelLine (failing ErrBufferFull)), DialContext = None\<rparr>"
  have d: "(case DialContext ?t of None \<Rightarrow> (\<lambda>d. connected) 10 | Some d \<Rightarrow> d)
     [] (Context 0) (Network a_target) (String a_target) = Inr 2"
    by (simp add: connected_def)
  have k: "Handler ?t = Some (TunnelLine (failing ErrBufferFull))"
    by simp
  have b: "tunnelLine_body (failing ErrBufferFull) (Context 0) 1 2
       (NewReaderSize 1 8192) (NewReaderSize 2 8192)
       ([] @ [Dial (Context 0) (Network a_target) (String a_target) (Inr 2),
              ServeTunnel (Context 0) 1 2])
     = (Exit (Panicked ErrBufferFull),
        ([] @ [Dial (Context 0) (Network a_target) (String a_target) (Inr 2),
               ServeTunnel (Context 0) 1 2])
        @ [ReadLine (Context 0) 1 (NewReaderSize 1 8192) (Inl ErrBufferFull), Close 1])"
    by (rule tunnelLine_body_fatal) (simp_all add: failing_def)
  have s: "TunnelLine (failing ErrBufferFull) (Context 0) 1 2
       ([] @ [Dial (Context 0) (Network a_target) (String a_target) (Inr 2),
              ServeTunnel (Context 0) 1 2])
     = Some (Panicked ErrBufferFull,
        ([] @ [Dial (Context 0) (Network a_target) (String a_target) (Inr 2),
               ServeTunnel (Context 0) 1 2])
        @ [ReadLine (Context 0) 1 (NewReaderSize 1 8192) (Inl ErrBufferFull), Close 1])"
    unfolding TunnelLine_def tunnelLine_def Let_def by (rule tunnelLine_loop_Exit [OF b])
  from ServeProxy_closes_outbound [OF d k s] k show ?thesis
    by (simp add: a_target_def)
qed

subsection \<open>TunnelLine\<close>

text \<open>
  Claim C5. In every iteration of \<open>tunnelLine\<close> (the loop entered at any trace \<open>h\<close>,
  with the two readers of size 8192 that \<open>tunnelLine\<close> creates): when the inbound read
  answers \<open>io.EOF\<close> or \<open>context.Canceled\<close>, the relay returns and has done nothing
  but that read; when it answers any other error, such as the reader's error for a line
  longer than its buffer, the relay closes the inbound connection and ends in a panic
  with that error, and no write to the target has taken place.
\<close>

theorem tunnelLine_inbound_read:
  "(readLine P h ctx from (NewReaderSize from 8192) = Inl err \<and> (err = EOF \<or> err = Canceled) \<longrightarrow>
      tunnelLine_loop P ctx from to (NewReaderSize from 8192) (NewReaderSize to 8192) h =
        Some (Returned, h @ [ReadLine ctx from (NewReaderSize from 8192) (Inl err)]))
 \<and> (readLine P h ctx from (NewReaderSize from 8192) = Inl err \<and> err \<noteq> EOF \<and> err \<noteq> Canceled \<longrightarrow>
      tunnelLine_loop P ctx from to (NewReaderSize from 8192) (NewReaderSize to 8192) h =
        Some (Panicked err,
              h @ [ReadLine ctx from (NewReaderSize from 8192) (Inl err), Close from]))
 \<and> (readLine P h ctx from (NewReaderSize from 8192) = Inl ErrBufferFull \<longrightarrow>
      tunnelLine P ctx from to h =
        Some (Panicked ErrBufferFull,
              h @ [ReadLine ctx from (NewReaderSize from 8192) (Inl ErrBufferFull), Close from]))"
  by (auto simp add: tunnelLine_def Let_def
      intro!: tunnelLine_loop_Exit tunnelLine_body_end tunnelLine_body_fatal)

text \<open>
  The theorem at an inbound connection that ends at once, and at one whose line does not
  fit the reader.
\<close>

theorem tunnelLine_inbound_read_witness:
  "readLine (failing EOF) [] (Context 0) 1 (NewReaderSize 1 8192) = Inl EOF
 \<and> tunnelLine_loop (failing EOF) (Context 0) 1 2 (NewReaderSize 1 8192) (NewReaderSize 2 8192) []
     = Some (Returned, [ReadLine (Context 0) 1 (NewReaderSize 1 8192) (Inl EOF)])
 \<and> readLine (failing ErrBufferFull) [] (Context 0) 1 (NewReaderSize 1 8192) = Inl ErrBufferFull
 \<and> tunnelLine_loop (failing ErrBufferFull) (Context 0) 1 2
       (NewReaderSize 1 8192) (NewReaderSize 2 8192) []
     = Some (Panicked ErrBufferFull,
         [ReadLine (Context 0) 1 (NewReaderSize 1 8192) (Inl ErrBufferFull), Close 1])"
proof -
  have a: "readLine (failing EOF) [] (Context 0) 1 (NewReaderSize 1 8192) = Inl EOF"
    and b: "readLine (failing ErrBufferFull) [] (Context 0) 1 (NewReaderSize 1 8192)
              = Inl ErrBufferFull"
    by (simp_all add: failing_def)
  from tunnelLine_inbound_read [of "failing EOF" "[]" "Context 0" 1 EOF 2]
    tunnelLine_inbound_read [of "failing ErrBufferFull" "[]" "Context 0" 1 ErrBufferFull 2] a b
  show ?thesis
    by simp
qed

text \<open>
  Claim C10. An iteration of \<open>tunnelLine\<close> ends the loop by a plain return exactly when
  the inbound read answers the value \<open>io.EOF\<close> or the value \<open>context.Canceled\<close>.
  When it answers \<open>context.DeadlineExceeded\<close>, or an error that wraps another one
  (\<open>io.EOF\<close> and \<open>context.Canceled\<close> included, at any depth), the relay closes the
  inbound connection and ends in a panic with that error.
\<close>

theorem tunnelLine_normal_end_exact:
  "(fst (tunnelLine_body P ctx from to r1 r2 h) = Exit Returned \<longleftrightarrow>
      readLine P h ctx from r1 = Inl EOF \<or> readLine P h ctx from r1 = Inl Canceled)
 \<and> (readLine P h ctx from r1 = Inl err \<and> (err = DeadlineExceeded \<or> err = Wrapped s e) \<longrightarrow>
      tunnelLine_loop P ctx from to r1 r2 h =
        Some (Panicked err, h @ [ReadLine ctx from r1 (Inl err), Close from]))"
  by (auto intro!: tunnelLine_loop_Exit tunnelLine_body_fatal
      simp add: tunnelLine_body_def Let_def leave_def fatal_def
      split: sum.splits option.splits)

text \<open>
  The theorem at an inbound read that meets the deadline of the caller's context, and at
  one that answers a wrapped \<open>io.EOF\<close>.
\<close>

theorem tunnelLine_normal_end_exact_witness:
  "readLine (failing DeadlineExceeded) [] (Context 0) 1 (NewReaderSize 1 8192)
     = Inl DeadlineExceeded
 \<and> fst (tunnelLine_body (failing DeadlineExceeded) (Context 0) 1 2
          (NewReaderSize 1 8192) (NewReaderSize 2 8192) []) \<noteq> Exit Returned
 \<and> tunnelLine_loop (failing DeadlineExceeded) (Context 0) 1 2
       (NewReaderSize 1 8192) (NewReaderSize 2 8192) []
     = Some (Panicked DeadlineExceeded,
         [ReadLine (Context 0) 1 (NewReaderSize 1 8192) (Inl DeadlineExceeded), Close 1])
 \<and> readLine (failing (Wrapped ''read'' EOF)) [] (Context 0) 1 (NewReaderSize 1 8192)
     = Inl (Wrapped ''read'' EOF)
 \<and> tunnelLine_loop (failing (Wrapped ''read'' EOF)) (Context 0) 1 2
       (NewReaderSize 1 8192) (NewReaderSize 2 8192) []
     = Some (Panicked (Wrapped ''read'' EOF),
         [ReadLine (Context 0) 1 (NewReaderSize 1 8192) (Inl (Wrapped ''read'' EOF)), Close 1])"
proof -
  have a: "readLine (failing DeadlineExceeded) [] (Context 0) 1 (NewReaderSize 1 8192)
             = Inl DeadlineExceeded"
    and b: "readLine (failing (Wrapped ''read'' EOF)) [] (Context 0) 1 (NewReaderSize 1 8192)
             = Inl (Wrapped ''read'' EOF)"
    by (simp_all add: failing_def)
  from tunnelLine_normal_end_exact
         [of "failing DeadlineExceeded" "Context 0" 1 2 "NewReaderSize 1 8192"
             "NewReaderSize 2 8192" "[]" DeadlineExceeded]
       tunnelLine_normal_end_exact
         [of "failing (Wrapped ''read'' EOF)" "Context 0" 1 2 "NewReaderSize 1 8192"
             "NewReaderSize 2 8192" "[]" "Wrapped ''read'' EOF" "''read''" EOF] a b
  show ?thesis
    by simp
qed

text \<open>
  Claim C6. In every iteration of \<open>tunnelLine\<close>, the first operation is the inbound
  read, under the caller's context, and it is the only operation of the iteration that a
  cancellation can reach: every other read of the iteration is the read of the reply
  from the target, through the target's reader, under \<open>context.Background()\<close>, which
  is never done whatever is cancelled. When the inbound read yields a line and the line
  is forwarded, that reply read is the third operation.
\<close>

theorem tunnelLine_reply_read_context:
  "added h (snd (tunnelLine_body P ctx from to r1 r2 h)) ! 0
      = ReadLine ctx from r1 (readLine P h ctx from r1)
 \<and> (\<forall>i. 0 < i \<and> i < length (added h (snd (tunnelLine_body P ctx from to r1 r2 h))) \<longrightarrow>
        \<not> cancellable (added h (snd (tunnelLine_body P ctx from to r1 r2 h)) ! i))
 \<and> (\<forall>i ctx' c r res. 0 < i \<and> i < length (added h (snd (tunnelLine_body P ctx from to r1 r2 h)))
        \<and> added h (snd (tunnelLine_body P ctx from to r1 r2 h)) ! i = ReadLine ctx' c r res \<longrightarrow>
        ctx' = Background \<and> c = to \<and> r = r2)
 \<and> (\<forall>line. readLine P h ctx from r1 = Inr line
        \<and> conn_Write P (h @ [ReadLine ctx from r1 (Inr line)]) to line = None \<longrightarrow>
        added h (snd (tunnelLine_body P ctx from to r1 r2 h)) ! 2
          = ReadLine Background to r2
              (readLine P (h @ [ReadLine ctx from r1 (Inr line), Write to line None]) Background to r2))
 \<and> \<not> ctx_Done c Background"
  by (auto simp add: added_append tunnelLine_body_def Let_def leave_def fatal_def nth_Cons'
      split: sum.splits option.splits if_splits)

text \<open>
  The theorem at the exchange of \<open>PING\<close> and \<open>PONG\<close>: the inbound read can be
  cancelled, the reply read cannot.
\<close>

theorem tunnelLine_reply_read_context_witness:
  "readLine ping_pong [] (Context 0) 1 (NewReaderSize 1 8192) = Inr ''PING\<newline>''
 \<and> conn_Write ping_pong [ReadLine (Context 0) 1 (NewReaderSize 1 8192) (Inr ''PING\<newline>'')] 2 ''PING\<newline>'' = None
 \<and> added [] (snd (tunnelLine_body ping_pong (Context 0) 1 2
                    (NewReaderSize 1 8192) (NewReaderSize 2 8192) [])) ! 2
     = ReadLine Background 2 (NewReaderSize 2 8192) (Inr ''PONG\<newline>'')
 \<and> cancellable (added [] (snd (tunnelLine_body ping_pong (Context 0) 1 2
                    (NewReaderSize 1 8192) (NewReaderSize 2 8192) [])) ! 0)
 \<and> \<not> cancellable (added [] (snd (tunnelLine_body ping_pong (Context 0) 1 2
                    (NewReaderSize 1 8192) (NewReaderSize 2 8192) [])) ! 2)"
proof -
  have a: "readLine ping_pong [] (Context 0) 1 (NewReaderSize 1 8192) = Inr ''PING\<newline>''"
    and b: "conn_Write ping_pong ([] @ [ReadLine (Context 0) 1 (NewReaderSize 1 8192) (Inr ''PING\<newline>'')]) 2 ''PING\<newline>'' = None"
    and c: "readLine ping_pong
              ([] @ [ReadLine (Context 0) 1 (NewReaderSize 1 8192) (Inr ''PING\<newline>''),
                     Write 2 ''PING\<newline>'' None])
              Background 2 (NewReaderSize 2 8192) = Inr ''PONG\<newline>''"
    by (simp_all add: ping_pong_def)
  note t = tunnelLine_reply_read_context
    [of "[]" ping_pong "Context 0" 1 2 "NewReaderSize 1 8192" "NewReaderSize 2 8192"]
  note z = t [THEN conjunct1]
  note r = t [THEN conjunct2, THEN conjunct2, THEN conjunct2, THEN conjunct1, rule_format,
      OF conjI, OF a b]
  from a b z r c show ?thesis
    by simp
qed

subsection \<open>TunnelRaw\<close>














end
